theory Spec2Isabelle
  imports Main "HOL-Library.Word"
begin

section \<open>The \<open>encodings\<close> package: name normalisation and the codec search function\<close>

text \<open>
  The development embeds the three functions of \<open>encodings/__init__.py\<close> (CPython 3.12, read
  from its compiled form): \<open>normalize_encoding\<close>, \<open>search_function\<close> and \<open>_alias_mbcs\<close>.

  A Python \<open>str\<close> is a sequence of Unicode code points, so a string is a list of natural
  numbers here; \<open>bytes\<close> are 8-bit words. The module globals \<open>_cache\<close> and \<open>_aliases\<close> are
  the fields of an explicit state, every exception is a value of \<open>pyexn\<close>, and the calls of
  \<open>__import__\<close> are recorded in the state in the order in which they happen.
\<close>

subsection \<open>Strings and characters\<close>

type_synonym codepoint = nat
type_synonym pystr = "codepoint list"

definition str :: "string \<Rightarrow> pystr" where
  "str s = map of_char s"

abbreviation dot :: codepoint where "dot \<equiv> 46"
abbreviation underscore :: codepoint where "underscore \<equiv> 95"

definition isascii :: "codepoint \<Rightarrow> bool" where
  "isascii c = (c < 128)"

definition ascii_alnum :: "codepoint \<Rightarrow> bool" where
  "ascii_alnum c = ((48 \<le> c \<and> c \<le> 57) \<or> (65 \<le> c \<and> c \<le> 90) \<or> (97 \<le> c \<and> c \<le> 122))"

text \<open>
  \<open>str.isalnum\<close> on one character. On ASCII it is the digits and the letters; beyond ASCII it
  is decided by the Unicode character database, which is no part of the package: the table
  is the parameter \<open>U\<close>.
\<close>

definition isalnum :: "(codepoint \<Rightarrow> bool) \<Rightarrow> codepoint \<Rightarrow> bool" where
  "isalnum U c = (if c < 128 then ascii_alnum c else U c)"

text \<open>
  The alphanumeric code points of the Latin-1 supplement (U+0080 to U+00FF), as
  \<open>str.isalnum\<close> classifies them: the letters and the numeric characters of that block.
  It serves as the table wherever a concrete one is needed.
\<close>

definition latin1_isalnum :: "codepoint \<Rightarrow> bool" where
  "latin1_isalnum c =
     (c \<in> {170, 178, 179, 181, 185, 186, 188, 189, 190}
      \<or> (192 \<le> c \<and> c \<le> 214) \<or> (216 \<le> c \<and> c \<le> 246) \<or> (248 \<le> c \<and> c \<le> 255))"

subsection \<open>Exceptions\<close>

datatype pyexn =
    UnicodeDecodeError
  | CodecRegistryError pystr
  | IndexError
  | TypeError

subsection \<open>\<open>normalize_encoding\<close>\<close>

text \<open>The argument is a \<open>str\<close> or a \<open>bytes\<close> object.\<close>

datatype name_arg = Str pystr | Bytes "8 word list"

text \<open>\<open>str(encoding, "ascii")\<close>: every byte must be below 128.\<close>

definition decode_ascii :: "8 word list \<Rightarrow> pyexn + pystr" where
  "decode_ascii bs =
     (if list_all (\<lambda>b. unat b < 128) bs then Inr (map unat bs) else Inl UnicodeDecodeError)"

text \<open>
  The loop \<open>for c in encoding\<close> with its two variables \<open>chars\<close> and \<open>punct\<close>:
  \<^verbatim>\<open>
    if c.isalnum() or c == '.':
        if punct and chars:
            chars.append('_')
        if c.isascii():
            chars.append(c)
        punct = False
    else:
        punct = True
  \<close>
\<close>

fun normalize_loop :: "(codepoint \<Rightarrow> bool) \<Rightarrow> pystr \<Rightarrow> pystr \<Rightarrow> bool \<Rightarrow> pystr" where
  "normalize_loop U [] chars punct = chars"
| "normalize_loop U (c # cs) chars punct =
     (if isalnum U c \<or> c = dot then
        (let chars1 = (if punct \<and> chars \<noteq> [] then chars @ [underscore] else chars);
             chars2 = (if isascii c then chars1 @ [c] else chars1)
         in normalize_loop U cs chars2 False)
      else normalize_loop U cs chars True)"

definition normalize_encoding :: "(codepoint \<Rightarrow> bool) \<Rightarrow> name_arg \<Rightarrow> pyexn + pystr" where
  "normalize_encoding U encoding =
     (case encoding of
        Bytes bs \<Rightarrow>
          (case decode_ascii bs of
             Inl e \<Rightarrow> Inl e
           | Inr s \<Rightarrow> Inr (normalize_loop U s [] False))
      | Str s \<Rightarrow> Inr (normalize_loop U s [] False))"

subsection \<open>Registry entries, modules and the state of the package\<close>

text \<open>
  The members of a registry entry are only inspected with \<open>is None\<close> and \<open>callable\<close>;
  the seventh member is the codec's name.
\<close>

datatype pyobj = PyNone | PyCallable nat | PyStr pystr | PyOther nat

definition callable :: "pyobj \<Rightarrow> bool" where
  "callable x = (case x of PyCallable _ \<Rightarrow> True | _ \<Rightarrow> False)"

text \<open>
  What \<open>getregentry()\<close> returns: an instance of \<open>codecs.CodecInfo\<close>, or a plain tuple
  (the old registration protocol).
\<close>

datatype regentry = CodecInfo "pyobj list" | PlainTuple "pyobj list"

text \<open>
  A codec module: its \<open>__name__\<close> and \<open>__file__\<close>, and its two optional attributes
  (\<open>None\<close> when reading the attribute raises \<open>AttributeError\<close>).
\<close>

record pymodule =
  mod_name :: pystr
  mod_file :: pystr
  getregentry :: "regentry option"
  getaliases :: "pystr list option"

text \<open>
  What the package takes from outside: the Unicode table behind \<open>str.isalnum\<close>, the import
  system (\<open>None\<close> when \<open>__import__\<close> raises \<open>ImportError\<close>) and the constructor
  \<open>codecs.CodecInfo\<close>, which stores the arguments it accepts (\<open>None\<close> when it raises
  \<open>TypeError\<close>).
\<close>

record env =
  unicode_isalnum :: "codepoint \<Rightarrow> bool"
  import_module :: "pystr \<Rightarrow> pymodule option"
  new_CodecInfo :: "pyobj list \<Rightarrow> pyobj list option"

text \<open>
  The module globals \<open>_cache\<close> and \<open>_aliases\<close>, and the names passed to \<open>__import__\<close> so
  far, oldest first. A cached value is \<open>None\<close> or an entry; a key that is absent is what
  \<open>_cache.get(encoding, _unknown)\<close> answers with \<open>_unknown\<close>.
\<close>

record state =
  cache :: "name_arg \<rightharpoonup> regentry option"
  aliases :: "pystr \<rightharpoonup> pystr"
  import_log :: "pystr list"

subsection \<open>\<open>search_function\<close>\<close>

text \<open>\<open>a or b\<close> on the results of two \<open>_aliases.get\<close>: \<open>None\<close> and the empty string are false.\<close>

definition py_or :: "pystr option \<Rightarrow> pystr option \<Rightarrow> pystr option" where
  "py_or a b = (case a of None \<Rightarrow> b | Some v \<Rightarrow> (if v \<noteq> [] then Some v else b))"

text \<open>\<open>norm_encoding.replace('.', '_')\<close>\<close>

definition replace_dot :: "pystr \<Rightarrow> pystr" where
  "replace_dot s = map (\<lambda>c. if c = dot then underscore else c) s"

definition aliased_encoding :: "(pystr \<rightharpoonup> pystr) \<Rightarrow> pystr \<Rightarrow> pystr option" where
  "aliased_encoding al norm_encoding = py_or (al norm_encoding) (al (replace_dot norm_encoding))"

text \<open>
  \<^verbatim>\<open>
    if aliased_encoding is not None:
        modnames = [aliased_encoding, norm_encoding]
    else:
        modnames = [norm_encoding]
  \<close>
\<close>

definition modnames :: "(pystr \<rightharpoonup> pystr) \<Rightarrow> pystr \<Rightarrow> pystr list" where
  "modnames al norm_encoding =
     (case aliased_encoding al norm_encoding of
        Some a \<Rightarrow> [a, norm_encoding]
      | None \<Rightarrow> [norm_encoding])"

text \<open>The test \<open>not modname or '.' in modname\<close> that makes the loop skip a candidate.\<close>

definition skipped :: "pystr \<Rightarrow> bool" where
  "skipped modname = (modname = [] \<or> dot \<in> set modname)"

text \<open>
  The loop \<open>for modname in modnames\<close>: the first candidate whose import succeeds ends it
  (\<open>break\<close>), an \<open>ImportError\<close> moves on to the next one, and the \<open>else\<close> branch of the loop
  leaves \<open>mod = None\<close>. The result is the pair of \<open>modname\<close> and \<open>mod\<close>, with the names
  that were passed to \<open>__import__\<close>.
\<close>

fun import_loop :: "env \<Rightarrow> pystr list \<Rightarrow> (pystr \<times> pymodule) option \<times> pystr list" where
  "import_loop E [] = (None, [])"
| "import_loop E (modname # rest) =
     (if skipped modname then import_loop E rest
      else (case import_module E (str ''encodings.'' @ modname) of
              Some m \<Rightarrow> (Some (modname, m), [str ''encodings.'' @ modname])
            | None \<Rightarrow>
                (case import_loop E rest of
                   (r, log) \<Rightarrow> (r, (str ''encodings.'' @ modname) # log))))"

abbreviation dquote :: codepoint where "dquote \<equiv> 34"

text \<open>The two messages of \<open>CodecRegistryError\<close>.\<close>

definition failed_to_register :: "pymodule \<Rightarrow> pystr" where
  "failed_to_register m =
     str ''module '' @ [dquote] @ mod_name m @ [dquote] @ str '' ('' @ mod_file m
     @ str '') failed to register''"

definition incompatible_codecs :: "pymodule \<Rightarrow> pystr" where
  "incompatible_codecs m =
     str ''incompatible codecs in module '' @ [dquote] @ mod_name m @ [dquote] @ str '' (''
     @ mod_file m @ str '')''"

text \<open>
  The callability test on a tuple of 4 to 7 members:
  \<^verbatim>\<open>
    not callable(entry[0]) or not callable(entry[1]) or
    (entry[2] is not None and not callable(entry[2])) or
    (entry[3] is not None and not callable(entry[3])) or
    (len(entry) > 4 and entry[4] is not None and not callable(entry[4])) or
    (len(entry) > 5 and entry[5] is not None and not callable(entry[5]))
  \<close>
\<close>

definition incompatible :: "pyobj list \<Rightarrow> bool" where
  "incompatible entry =
     (\<not> callable (entry ! 0) \<or> \<not> callable (entry ! 1)
      \<or> (entry ! 2 \<noteq> PyNone \<and> \<not> callable (entry ! 2))
      \<or> (entry ! 3 \<noteq> PyNone \<and> \<not> callable (entry ! 3))
      \<or> (length entry > 4 \<and> entry ! 4 \<noteq> PyNone \<and> \<not> callable (entry ! 4))
      \<or> (length entry > 5 \<and> entry ! 5 \<noteq> PyNone \<and> \<not> callable (entry ! 5)))"

text \<open>\<open>s.split(".", 1)\<close> and the subscript that raises \<open>IndexError\<close> out of range.\<close>

definition split_dot1 :: "pystr \<Rightarrow> pystr list" where
  "split_dot1 s =
     (case dropWhile (\<lambda>c. c \<noteq> dot) s of
        [] \<Rightarrow> [s]
      | _ # rest \<Rightarrow> [takeWhile (\<lambda>c. c \<noteq> dot) s, rest])"

definition subscript :: "'a list \<Rightarrow> nat \<Rightarrow> pyexn + 'a" where
  "subscript xs i = (if i < length xs then Inr (xs ! i) else Inl IndexError)"

text \<open>
  The validation of the value of \<open>getregentry()\<close>:
  \<^verbatim>\<open>
    if not isinstance(entry, codecs.CodecInfo):
        if not 4 <= len(entry) <= 7:
            raise CodecRegistryError('module "%s" (%s) failed to register' % ...)
        if not callable(entry[0]) or ...:
            raise CodecRegistryError('incompatible codecs in module "%s" (%s)' % ...)
        if len(entry) < 7 or entry[6] is None:
            entry += (None,)*(6-len(entry)) + (mod.__name__.split(".", 1)[1],)
        entry = codecs.CodecInfo(*entry)
  \<close>
  A tuple repeated a negative number of times is empty, as \<open>replicate\<close> on the truncated
  difference is.
\<close>

definition call_CodecInfo :: "env \<Rightarrow> pyobj list \<Rightarrow> pyexn + regentry" where
  "call_CodecInfo E args =
     (case new_CodecInfo E args of None \<Rightarrow> Inl TypeError | Some members \<Rightarrow> Inr (CodecInfo members))"

definition validate_entry :: "env \<Rightarrow> pymodule \<Rightarrow> regentry \<Rightarrow> pyexn + regentry" where
  "validate_entry E m entry =
     (case entry of
        CodecInfo _ \<Rightarrow> Inr entry
      | PlainTuple t \<Rightarrow>
          (if \<not> (4 \<le> length t \<and> length t \<le> 7) then
             Inl (CodecRegistryError (failed_to_register m))
           else if incompatible t then
             Inl (CodecRegistryError (incompatible_codecs m))
           else if length t < 7 \<or> t ! 6 = PyNone then
             (case subscript (split_dot1 (mod_name m)) 1 of
                Inl e \<Rightarrow> Inl e
              | Inr nm \<Rightarrow> call_CodecInfo E (t @ replicate (6 - length t) PyNone @ [PyStr nm]))
           else call_CodecInfo E t))"

text \<open>
  \<^verbatim>\<open>
    for alias in codecaliases:
        if alias not in _aliases:
            _aliases[alias] = modname
  \<close>
\<close>

fun register_aliases :: "pystr list \<Rightarrow> pystr \<Rightarrow> (pystr \<rightharpoonup> pystr) \<Rightarrow> (pystr \<rightharpoonup> pystr)" where
  "register_aliases [] modname al = al"
| "register_aliases (alias # rest) modname al =
     register_aliases rest modname (if al alias = None then al(alias \<mapsto> modname) else al)"

text \<open>
  The search function. It returns \<open>None\<close> or an entry, or raises; the state it leaves is
  returned in every case.
\<close>

definition search_function :: "env \<Rightarrow> state \<Rightarrow> name_arg \<Rightarrow> (pyexn + regentry option) \<times> state" where
  "search_function E s encoding =
     (case cache s encoding of
        Some entry \<Rightarrow> (Inr entry, s)
      | None \<Rightarrow>
          (case normalize_encoding (unicode_isalnum E) encoding of
             Inl e \<Rightarrow> (Inl e, s)
           | Inr norm_encoding \<Rightarrow>
               (case import_loop E (modnames (aliases s) norm_encoding) of
                  (found, log) \<Rightarrow>
                    (let s1 = s\<lparr>import_log := import_log s @ log\<rparr>;
                         miss = (Inr None, s1\<lparr>cache := (cache s1)(encoding \<mapsto> None)\<rparr>)
                     in case found of
                          None \<Rightarrow> miss
                        | Some (modname, m) \<Rightarrow>
                            (case getregentry m of
                               None \<Rightarrow> miss
                             | Some entry0 \<Rightarrow>
                                 (case validate_entry E m entry0 of
                                    Inl e \<Rightarrow> (Inl e, s1)
                                  | Inr entry \<Rightarrow>
                                      (let s2 = s1\<lparr>cache := (cache s1)(encoding \<mapsto> Some entry)\<rparr>;
                                           s3 = (case getaliases m of
                                                   None \<Rightarrow> s2
                                                 | Some codecaliases \<Rightarrow>
                                                     s2\<lparr>aliases :=
                                                          register_aliases codecaliases modname
                                                            (aliases s2)\<rparr>)
                                       in (Inr (Some entry), s3))))))))"

subsection \<open>\<open>_alias_mbcs\<close>\<close>

text \<open>\<open>"cp%s" % n\<close> formats the integer in decimal.\<close>

fun dec_digits :: "nat \<Rightarrow> pystr" where
  "dec_digits n = (if n < 10 then [48 + n] else dec_digits (n div 10) @ [48 + n mod 10])"

declare dec_digits.simps [simp del]

definition str_of_int :: "int \<Rightarrow> pystr" where
  "str_of_int i = (if i < 0 then 45 # dec_digits (nat (- i)) else dec_digits (nat i))"

text \<open>
  What the function finds on the machine: the active code page (\<open>None\<close> when
  \<open>import _winapi\<close> raises \<open>ImportError\<close>) and the entry of \<open>encodings.mbcs\<close>
  (\<open>None\<close> when that import raises \<open>ImportError\<close>).
\<close>

record winenv =
  GetACP :: "int option"
  mbcs_getregentry :: "regentry option"

text \<open>
  \<^verbatim>\<open>
    try:
        import _winapi
        ansi_code_page = "cp%s" % _winapi.GetACP()
        if encoding == ansi_code_page:
            import encodings.mbcs
            return encodings.mbcs.getregentry()
    except ImportError:
        pass
  \<close>
\<close>

definition alias_mbcs :: "winenv \<Rightarrow> name_arg \<Rightarrow> regentry option" where
  "alias_mbcs W encoding =
     (case GetACP W of
        None \<Rightarrow> None
      | Some acp \<Rightarrow>
          (let ansi_code_page = str ''cp'' @ str_of_int acp
           in if encoding = Str ansi_code_page then mbcs_getregentry W else None))"


subsection \<open>Auxiliary definitions\<close>

text \<open>
  What one run of the loop appends to \<open>chars\<close>, as a function of the rest of the input, of
  \<open>punct\<close> and of whether \<open>chars\<close> is non-empty. It is used in the proofs only.
\<close>

fun emitted :: "(codepoint \<Rightarrow> bool) \<Rightarrow> pystr \<Rightarrow> bool \<Rightarrow> bool \<Rightarrow> pystr" where
  "emitted U [] punct nonempty = []"
| "emitted U (c # cs) punct nonempty =
     (if isalnum U c \<or> c = dot then
        (if punct \<and> nonempty then [underscore] else [])
        @ (if isascii c then [c] else [])
        @ emitted U cs False (nonempty \<or> isascii c)
      else emitted U cs True nonempty)"

text \<open>The characters that the loop retains: alphanumeric or the dot.\<close>

definition retained :: "(codepoint \<Rightarrow> bool) \<Rightarrow> codepoint \<Rightarrow> bool" where
  "retained U c = (isalnum U c \<or> c = dot)"

text \<open>The characters a normalised name is made of.\<close>

definition name_char :: "codepoint \<Rightarrow> bool" where
  "name_char c = (ascii_alnum c \<or> c = dot \<or> c = underscore)"

text \<open>
  The candidates that a run of the import loop passes to \<open>__import__\<close>: all of them up to
  and including the first one that can be imported.
\<close>

fun tried :: "env \<Rightarrow> pystr list \<Rightarrow> pystr list" where
  "tried E [] = []"
| "tried E (modname # rest) =
     modname # (if import_module E (str ''encodings.'' @ modname) = None then tried E rest else [])"

text \<open>The names on which normalisation is idempotent: no alphanumeric beyond ASCII.\<close>

definition ascii_retained :: "(codepoint \<Rightarrow> bool) \<Rightarrow> name_arg \<Rightarrow> bool" where
  "ascii_retained U encoding =
     (case encoding of
        Bytes bs \<Rightarrow> True
      | Str s \<Rightarrow> list_all (\<lambda>c. isascii c \<or> \<not> isalnum U c) s)"

subsection \<open>An example installation\<close>

text \<open>
  Six codec modules: one that returns a \<open>CodecInfo\<close>, one that registers with a plain tuple
  of four members, one without \<open>getregentry\<close>, one whose tuple starts with a member that is
  not callable, one whose \<open>CodecInfo\<close> starts with \<open>None\<close>, and one whose tuple has three
  members only.
\<close>

definition utf_8_module :: pymodule where
  "utf_8_module =
     \<lparr>mod_name = str ''encodings.utf_8'', mod_file = str ''utf_8.py'',
      getregentry = Some (CodecInfo [PyCallable 0, PyCallable 1, PyNone, PyNone,
                                     PyCallable 2, PyCallable 3, PyStr (str ''utf-8'')]),
      getaliases = Some [str ''u8'', str ''utf'', str ''utf8'']\<rparr>"

definition oldstyle_module :: pymodule where
  "oldstyle_module =
     \<lparr>mod_name = str ''encodings.oldstyle'', mod_file = str ''oldstyle.py'',
      getregentry = Some (PlainTuple [PyCallable 10, PyCallable 11, PyNone, PyNone]),
      getaliases = None\<rparr>"

definition noentry_module :: pymodule where
  "noentry_module =
     \<lparr>mod_name = str ''encodings.noentry'', mod_file = str ''noentry.py'',
      getregentry = None, getaliases = None\<rparr>"

definition badshape_module :: pymodule where
  "badshape_module =
     \<lparr>mod_name = str ''encodings.badshape'', mod_file = str ''badshape.py'',
      getregentry = Some (PlainTuple [PyOther 0, PyCallable 21, PyNone, PyNone, PyNone, PyNone]),
      getaliases = None\<rparr>"

definition badinfo_module :: pymodule where
  "badinfo_module =
     \<lparr>mod_name = str ''encodings.badinfo'', mod_file = str ''badinfo.py'',
      getregentry = Some (CodecInfo [PyNone, PyCallable 31, PyNone, PyNone]),
      getaliases = None\<rparr>"

definition shortentry_module :: pymodule where
  "shortentry_module =
     \<lparr>mod_name = str ''encodings.shortentry'', mod_file = str ''shortentry.py'',
      getregentry = Some (PlainTuple [PyCallable 50, PyCallable 51, PyNone]),
      getaliases = None\<rparr>"

definition example_import :: "pystr \<Rightarrow> pymodule option" where
  "example_import n =
     (if n = str ''encodings.utf_8'' then Some utf_8_module
      else if n = str ''encodings.oldstyle'' then Some oldstyle_module
      else if n = str ''encodings.noentry'' then Some noentry_module
      else if n = str ''encodings.badshape'' then Some badshape_module
      else if n = str ''encodings.badinfo'' then Some badinfo_module
      else if n = str ''encodings.shortentry'' then Some shortentry_module
      else None)"

text \<open>\<open>codecs.CodecInfo\<close> takes at most seven positional arguments.\<close>

definition example_env :: env where
  "example_env =
     \<lparr>unicode_isalnum = latin1_isalnum, import_module = example_import,
      new_CodecInfo = (\<lambda>args. if length args \<le> 7 then Some args else None)\<rparr>"

text \<open>The state after the package is loaded: an empty cache and the alias table.\<close>

definition initial_state :: state where
  "initial_state =
     \<lparr>cache = Map.empty,
      aliases = [str ''utf8'' \<mapsto> str ''utf_8'', str ''latin1'' \<mapsto> str ''latin_1''],
      import_log = []\<rparr>"

text \<open>
  A state whose alias table leads to candidates that the loop skips: the name \<open>a.b\<close> is
  found under \<open>a_b\<close> and keeps its dot, and the empty name has an alias of its own.
\<close>

definition skipping_state :: state where
  "skipping_state =
     \<lparr>cache = Map.empty,
      aliases = [str ''a_b'' \<mapsto> str ''missing'', [] \<mapsto> str ''absent''],
      import_log = []\<rparr>"

definition example_winenv :: winenv where
  "example_winenv =
     \<lparr>GetACP = Some 1252,
      mbcs_getregentry = Some (CodecInfo [PyCallable 40, PyCallable 41, PyNone, PyNone,
                                          PyCallable 42, PyCallable 43, PyStr (str ''mbcs'')])\<rparr>"

section \<open>Properties of \<open>normalize_encoding\<close>\<close>

lemma normalize_loop_emitted:
  "normalize_loop U s chars punct = chars @ emitted U s punct (chars \<noteq> [])"
  by (induction s arbitrary: chars punct) (auto simp: Let_def)

lemma normalize_loop_start: "normalize_loop U s [] False = emitted U s False False"
  by (simp add: normalize_loop_emitted)

lemma underscore_not_retained: "\<not> retained U underscore"
  by (simp add: retained_def isalnum_def ascii_alnum_def)

lemma emitted_name_chars: "list_all name_char (emitted U s punct nonempty)"
  by (induction s arbitrary: punct nonempty)
     (auto simp: name_char_def isalnum_def isascii_def)

lemma emitted_idem:
  "list_all (\<lambda>c. retained U c \<longrightarrow> isascii c) s \<Longrightarrow>
   emitted U (emitted U s punct nonempty) False nonempty = emitted U s punct nonempty"
proof (induction s arbitrary: punct nonempty)
  case Nil
  show ?case by simp
next
  case (Cons c cs)
  show ?case
  proof (cases "retained U c")
    case False
    with Cons show ?thesis by (simp add: retained_def)
  next
    case True
    with Cons.prems have asc: "isascii c" by simp
    from Cons have ih: "emitted U (emitted U cs False True) False True = emitted U cs False True"
      by simp
    from True have keep: "isalnum U c \<or> c = dot" by (simp add: retained_def)
    have us: "\<not> (isalnum U underscore \<or> underscore = dot)"
      using underscore_not_retained [of U] by (simp add: retained_def)
    show ?thesis
    proof (cases "punct \<and> nonempty")
      case True
      then have "emitted U (c # cs) punct nonempty = underscore # c # emitted U cs False True"
        using keep asc by auto
      moreover have "emitted U (underscore # c # emitted U cs False True) False nonempty
                     = underscore # c # emitted U cs False True"
        using keep asc us True ih by (simp del: One_nat_def)
      ultimately show ?thesis by simp
    next
      case False
      then have "emitted U (c # cs) punct nonempty = c # emitted U cs False True"
        using keep asc by auto
      moreover have "emitted U (c # emitted U cs False True) False nonempty
                     = c # emitted U cs False True"
        using keep asc ih by simp
      ultimately show ?thesis by simp
    qed
  qed
qed

lemma emitted_skip_run:
  "list_all (\<lambda>c. \<not> (isalnum U c \<or> c = dot)) s \<Longrightarrow>
   emitted U (s @ rest) punct nonempty = emitted U rest (punct \<or> s \<noteq> []) nonempty"
  by (induction s arbitrary: punct) auto

lemma emitted_without_underscores:
  "filter (\<lambda>c. c \<noteq> underscore) (emitted U s punct nonempty)
   = filter (\<lambda>c. isascii c \<and> (isalnum U c \<or> c = dot)) s"
  by (induction s arbitrary: punct nonempty) (auto simp: isalnum_def ascii_alnum_def)

lemma normalize_encoding_Str: "normalize_encoding U (Str s) = Inr (emitted U s False False)"
  by (simp add: normalize_encoding_def normalize_loop_start)

lemma normalize_encoding_Inr:
  "normalize_encoding U encoding = Inr n \<Longrightarrow>
   \<exists>s. n = emitted U s False False
       \<and> (case encoding of Str s' \<Rightarrow> s = s' | Bytes bs \<Rightarrow> s = map unat bs \<and> list_all isascii s)"
  by (cases encoding)
     (auto simp: normalize_encoding_def normalize_loop_start decode_ascii_def isascii_def
        list_all_iff split: if_splits)

text \<open>
  C5 (as amended). Normalisation ignores punctuation but keeps the case of the letters:
  \<open>"UTF-8"\<close> becomes \<open>"UTF_8"\<close>, while \<open>"utf-8"\<close> and \<open>"utf_8"\<close> both become \<open>"utf_8"\<close>.
  In general the result without its underscores is the input's ASCII alphanumerics and
  dots, unchanged and in order: nothing is lower-cased.
\<close>

theorem normalize_encoding_keeps_case:
  "normalize_encoding U (Str (str ''UTF-8'')) = Inr (str ''UTF_8'')
   \<and> normalize_encoding U (Str (str ''utf_8'')) = Inr (str ''utf_8'')
   \<and> normalize_encoding U (Str (str ''utf-8'')) = normalize_encoding U (Str (str ''utf_8''))
   \<and> (\<exists>n. normalize_encoding U (Str s) = Inr n
          \<and> filter (\<lambda>c. c \<noteq> underscore) n
            = filter (\<lambda>c. isascii c \<and> (isalnum U c \<or> c = dot)) s)"
proof -
  have "normalize_encoding U (Str (str ''UTF-8'')) = Inr (str ''UTF_8'')"
    by (simp add: normalize_encoding_def str_def isalnum_def ascii_alnum_def isascii_def)
  moreover have "normalize_encoding U (Str (str ''utf_8'')) = Inr (str ''utf_8'')"
    by (simp add: normalize_encoding_def str_def isalnum_def ascii_alnum_def isascii_def)
  moreover have "normalize_encoding U (Str (str ''utf-8'')) = Inr (str ''utf_8'')"
    by (simp add: normalize_encoding_def str_def isalnum_def ascii_alnum_def isascii_def)
  moreover have "\<exists>n. normalize_encoding U (Str s) = Inr n
          \<and> filter (\<lambda>c. c \<noteq> underscore) n
            = filter (\<lambda>c. isascii c \<and> (isalnum U c \<or> c = dot)) s"
    by (simp add: normalize_encoding_Str emitted_without_underscores)
  ultimately show ?thesis by simp
qed

theorem normalize_encoding_keeps_case_witness:
  "normalize_encoding latin1_isalnum (Str (str ''UTF-8'')) = Inr (str ''UTF_8'')
   \<and> normalize_encoding latin1_isalnum (Str (str ''utf_8'')) = Inr (str ''utf_8'')
   \<and> normalize_encoding latin1_isalnum (Str (str ''utf-8''))
     = normalize_encoding latin1_isalnum (Str (str ''utf_8''))"
  using normalize_encoding_keeps_case [of latin1_isalnum "str ''Latin-1''"] by simp

theorem normalize_encoding_case_counterexample:
  "normalize_encoding latin1_isalnum (Str (str ''UTF-8''))
   \<noteq> normalize_encoding latin1_isalnum (Str (str ''utf_8''))"
  by (simp add: normalize_encoding_def str_def isalnum_def ascii_alnum_def isascii_def)

text \<open>
  C6 (as amended). A name made only of characters that are neither alphanumeric nor the
  dot, such as \<open>"  -;#"\<close>, normalises to the empty string: the run is a leading and trailing
  one and is dropped. The same run between two retained characters yields exactly one
  underscore.
\<close>

theorem normalize_encoding_punctuation_run:
  assumes "list_all (\<lambda>c. \<not> (isalnum U c \<or> c = dot)) s"
  shows "normalize_encoding U (Str s) = Inr []
         \<and> normalize_encoding U (Str (str ''a'' @ s @ str ''b''))
           = Inr (if s = [] then str ''ab'' else str ''a_b'')"
proof -
  have "emitted U (s @ []) False False = []"
    using assms by (simp only: emitted_skip_run) simp
  then have one: "normalize_encoding U (Str s) = Inr []"
    by (simp add: normalize_encoding_Str)
  have "emitted U (97 # s @ [98]) False False = 97 # emitted U (s @ [98]) False True"
    by (simp add: isalnum_def ascii_alnum_def isascii_def)
  also have "emitted U (s @ [98]) False True = emitted U [98] (s \<noteq> []) True"
    using assms by (simp only: emitted_skip_run) simp
  also have "\<dots> = (if s = [] then [98] else [underscore, 98])"
    by (simp add: isalnum_def ascii_alnum_def isascii_def)
  finally have two: "normalize_encoding U (Str (str ''a'' @ s @ str ''b''))
           = Inr (if s = [] then str ''ab'' else str ''a_b'')"
    by (simp add: normalize_encoding_Str str_def)
  from one two show ?thesis by simp
qed

theorem normalize_encoding_punctuation_run_witness:
  "list_all (\<lambda>c. \<not> (isalnum latin1_isalnum c \<or> c = dot)) (str ''  -;#'')
   \<and> normalize_encoding latin1_isalnum (Str (str ''  -;#'')) = Inr []
   \<and> normalize_encoding latin1_isalnum (Str (str ''a  -;#b'')) = Inr (str ''a_b'')"
proof -
  have h: "list_all (\<lambda>c. \<not> (isalnum latin1_isalnum c \<or> c = dot)) (str ''  -;#'')"
    by (simp add: str_def isalnum_def ascii_alnum_def)
  from normalize_encoding_punctuation_run [OF h] h show ?thesis
    by (simp add: str_def)
qed

theorem normalize_encoding_punctuation_counterexample:
  "normalize_encoding latin1_isalnum (Str (str ''  -;#'')) = Inr (str '''')"
  by (simp add: normalize_encoding_def str_def isalnum_def ascii_alnum_def isascii_def)

text \<open>
  C8 (as amended). Normalisation is idempotent on every name without a non-ASCII
  alphanumeric character, hence on every ASCII name and on every \<open>bytes\<close> name:
  normalising the normalised name gives the same name again.
\<close>

theorem normalize_encoding_idempotent:
  assumes "ascii_retained U encoding"
    and "normalize_encoding U encoding = Inr n"
  shows "normalize_encoding U (Str n) = Inr n"
proof -
  from assms(2) obtain s where n: "n = emitted U s False False"
    and s: "case encoding of Str s' \<Rightarrow> s = s' | Bytes bs \<Rightarrow> s = map unat bs \<and> list_all isascii s"
    using normalize_encoding_Inr by blast
  have "list_all (\<lambda>c. retained U c \<longrightarrow> isascii c) s"
  proof (cases encoding)
    case (Str s')
    with s assms(1) show ?thesis
      by (auto simp: ascii_retained_def list_all_iff retained_def isascii_def)
  next
    case (Bytes bs)
    with s show ?thesis by (auto simp: list_all_iff)
  qed
  then have "emitted U (emitted U s False False) False False = emitted U s False False"
    by (rule emitted_idem)
  with n show ?thesis by (simp add: normalize_encoding_Str)
qed

theorem normalize_encoding_idempotent_witness:
  "ascii_retained latin1_isalnum (Str (str '' ISO 8859-1;''))
   \<and> normalize_encoding latin1_isalnum (Str (str '' ISO 8859-1;'')) = Inr (str ''ISO_8859_1'')
   \<and> normalize_encoding latin1_isalnum (Str (str ''ISO_8859_1'')) = Inr (str ''ISO_8859_1'')"
proof -
  have h1: "ascii_retained latin1_isalnum (Str (str '' ISO 8859-1;''))"
    by (simp add: ascii_retained_def str_def isascii_def)
  have h2: "normalize_encoding latin1_isalnum (Str (str '' ISO 8859-1;''))
            = Inr (str ''ISO_8859_1'')"
    by (simp add: normalize_encoding_def str_def isalnum_def ascii_alnum_def isascii_def)
  from normalize_encoding_idempotent [OF h1 h2] h1 h2 show ?thesis by simp
qed

text \<open>
  The counterexample to idempotence on all names: in the name \<open>a\<close>, hyphen, U+00E9, hyphen, \<open>b\<close> the letter U+00E9 is
  alphanumeric, so it ends the first run of punctuation and an underscore is appended,
  but it is not ASCII and is not appended itself.
\<close>

theorem normalize_encoding_idempotent_counterexample:
  "normalize_encoding latin1_isalnum (Str [97, 45, 233, 45, 98]) = Inr (str ''a__b'')
   \<and> normalize_encoding latin1_isalnum (Str (str ''a__b'')) = Inr (str ''a_b'')
   \<and> str ''a__b'' \<noteq> str ''a_b''"
  by (simp add: normalize_encoding_def str_def isalnum_def ascii_alnum_def isascii_def
      latin1_isalnum_def)

text \<open>
  C10. Every character of a normalised name is an ASCII letter or digit, the dot or the
  underscore; in particular the name is pure ASCII, whatever the input contains.
\<close>

theorem normalize_encoding_ascii:
  assumes "normalize_encoding U encoding = Inr n"
  shows "list_all name_char n \<and> list_all isascii n"
proof -
  from assms obtain s where n: "n = emitted U s False False"
    using normalize_encoding_Inr by blast
  have "list_all name_char n"
    unfolding n by (rule emitted_name_chars)
  moreover have "name_char c \<Longrightarrow> isascii c" for c
    by (auto simp: name_char_def ascii_alnum_def isascii_def)
  ultimately show ?thesis by (auto simp: list_all_iff)
qed

theorem normalize_encoding_ascii_witness:
  "normalize_encoding latin1_isalnum (Str [85, 84, 70, 233, 8212, 56, 46, 120]) = Inr (str ''UTF_8.x'')
   \<and> list_all name_char (str ''UTF_8.x'') \<and> list_all isascii (str ''UTF_8.x'')"
proof -
  have h: "normalize_encoding latin1_isalnum (Str [85, 84, 70, 233, 8212, 56, 46, 120])
           = Inr (str ''UTF_8.x'')"
    by (simp add: normalize_encoding_def str_def isalnum_def ascii_alnum_def isascii_def
        latin1_isalnum_def)
  from normalize_encoding_ascii [OF h] h show ?thesis by simp
qed

section \<open>Properties of \<open>search_function\<close>\<close>

lemma search_function_hit:
  "cache s encoding = Some v \<Longrightarrow> search_function E s encoding = (Inr v, s)"
  by (simp add: search_function_def)

lemma search_function_returns_cached:
  "search_function E s encoding = (Inr r, s') \<Longrightarrow> cache s' = (cache s)(encoding \<mapsto> r)"
  by (auto simp: search_function_def Let_def split: option.splits sum.splits prod.splits)

lemma search_function_miss_log:
  assumes "cache s encoding = None"
    and "normalize_encoding (unicode_isalnum E) encoding = Inr norm"
  shows "import_log (snd (search_function E s encoding))
         = import_log s @ snd (import_loop E (modnames (aliases s) norm))"
  using assms
  by (auto simp: search_function_def Let_def split: option.splits sum.splits prod.splits)

lemma import_loop_log:
  "snd (import_loop E ms)
   = map (\<lambda>m. str ''encodings.'' @ m) (tried E (filter (\<lambda>m. \<not> skipped m) ms))"
  by (induction ms) (auto split: option.splits prod.splits)

lemma import_loop_found:
  "import_loop E ms = (Some (modname, m), log) \<Longrightarrow>
   log \<noteq> [] \<and> last log = str ''encodings.'' @ modname"
  by (induction ms arbitrary: log) (auto split: option.splits prod.splits if_splits)

lemma messages_differ: "incompatible_codecs m \<noteq> failed_to_register m"
  by (simp add: incompatible_codecs_def failed_to_register_def str_def)

lemma validate_entry_count:
  "(validate_entry E m (PlainTuple t) = Inl (CodecRegistryError (failed_to_register m)))
   = (\<not> (4 \<le> length t \<and> length t \<le> 7))"
  by (auto simp: validate_entry_def call_CodecInfo_def subscript_def messages_differ
      split: option.splits sum.splits if_splits)

lemma validate_entry_not_callable:
  assumes "t \<noteq> []" and "\<not> callable (hd t)"
  shows "validate_entry E m (PlainTuple t)
         = Inl (CodecRegistryError
                  (if 4 \<le> length t \<and> length t \<le> 7 then incompatible_codecs m
                   else failed_to_register m))"
proof -
  from assms have "\<not> callable (t ! 0)" by (simp add: hd_conv_nth)
  then have "incompatible t" by (simp add: incompatible_def)
  then show ?thesis by (simp add: validate_entry_def)
qed

lemma search_function_raises:
  assumes "cache s encoding = None"
    and "normalize_encoding (unicode_isalnum E) encoding = Inr norm"
    and "import_loop E (modnames (aliases s) norm) = (Some (modname, m), log)"
    and "getregentry m = Some entry"
    and "validate_entry E m entry = Inl e"
  shows "search_function E s encoding = (Inl e, s\<lparr>import_log := import_log s @ log\<rparr>)"
  using assms by (simp add: search_function_def)

text \<open>
  C1 (as amended). The cache is keyed by the requested name as it is passed, not by its
  normalised form. When a resolution returns (an entry or \<open>None\<close>), the cache afterwards
  is the old cache with the result stored under the requested name, no other key changes,
  and resolving the same requested name again returns that result and leaves the state as
  it is: no import, no validation. A different requested name is not served from that
  entry, whatever its normalised name is: if it was not in the cache itself, its resolution
  runs the import loop again, over the candidates of its own normalised name that are
  neither empty nor dotted, up to the first import that succeeds.
\<close>

theorem search_function_caches_requested_name:
  assumes "search_function E s encoding = (Inr r, s')"
  shows "cache s' = (cache s)(encoding \<mapsto> r)
         \<and> search_function E s' encoding = (Inr r, s')
         \<and> (encoding2 \<noteq> encoding \<longrightarrow> cache s' encoding2 = cache s encoding2)
         \<and> (encoding2 \<noteq> encoding \<longrightarrow> cache s encoding2 = None \<longrightarrow>
              normalize_encoding (unicode_isalnum E) encoding2 = Inr norm2 \<longrightarrow>
              import_log (snd (search_function E s' encoding2))
              = import_log s'
                @ map (\<lambda>m. str ''encodings.'' @ m)
                    (tried E (filter (\<lambda>m. m \<noteq> [] \<and> dot \<notin> set m)
                                (modnames (aliases s') norm2))))"
proof -
  from assms have c: "cache s' = (cache s)(encoding \<mapsto> r)"
    by (rule search_function_returns_cached)
  then have "cache s' encoding = Some r" by simp
  then have same: "search_function E s' encoding = (Inr r, s')"
    by (rule search_function_hit)
  from c have other: "encoding2 \<noteq> encoding \<longrightarrow> cache s' encoding2 = cache s encoding2"
    by simp
  have f: "filter (\<lambda>m. \<not> skipped m) ms = filter (\<lambda>m. m \<noteq> [] \<and> dot \<notin> set m) ms" for ms
    by (simp add: skipped_def)
  have miss: "import_log (snd (search_function E s' encoding2))
              = import_log s'
                @ map (\<lambda>m. str ''encodings.'' @ m)
                    (tried E (filter (\<lambda>m. m \<noteq> [] \<and> dot \<notin> set m)
                                (modnames (aliases s') norm2)))"
    if d: "encoding2 \<noteq> encoding" and n: "cache s encoding2 = None"
      and z: "normalize_encoding (unicode_isalnum E) encoding2 = Inr norm2"
  proof -
    from c d n have "cache s' encoding2 = None" by simp
    then have "import_log (snd (search_function E s' encoding2))
               = import_log s' @ snd (import_loop E (modnames (aliases s') norm2))"
      using z by (rule search_function_miss_log)
    then show ?thesis by (simp only: import_loop_log f)
  qed
  from c same other miss show ?thesis by blast
qed

theorem search_function_caches_requested_name_witness:
  "fst (search_function example_env initial_state (Str (str ''utf-8'')))
   = Inr (Some (CodecInfo [PyCallable 0, PyCallable 1, PyNone, PyNone,
                           PyCallable 2, PyCallable 3, PyStr (str ''utf-8'')]))
   \<and> search_function example_env
        (snd (search_function example_env initial_state (Str (str ''utf-8''))))
        (Str (str ''utf-8''))
     = (Inr (Some (CodecInfo [PyCallable 0, PyCallable 1, PyNone, PyNone,
                              PyCallable 2, PyCallable 3, PyStr (str ''utf-8'')])),
        snd (search_function example_env initial_state (Str (str ''utf-8''))))
   \<and> Str (str ''utf_8'') \<noteq> Str (str ''utf-8'')
   \<and> cache initial_state (Str (str ''utf_8'')) = None
   \<and> normalize_encoding (unicode_isalnum example_env) (Str (str ''utf_8'')) = Inr (str ''utf_8'')
   \<and> cache (snd (search_function example_env initial_state (Str (str ''utf-8''))))
        (Str (str ''utf_8'')) = None
   \<and> import_log (snd (search_function example_env
        (snd (search_function example_env initial_state (Str (str ''utf-8''))))
        (Str (str ''utf_8''))))
     = [str ''encodings.utf_8'', str ''encodings.utf_8'']"
proof -
  let ?s' = "snd (search_function example_env initial_state (Str (str ''utf-8'')))"
  have f: "fst (search_function example_env initial_state (Str (str ''utf-8'')))
           = Inr (Some (CodecInfo [PyCallable 0, PyCallable 1, PyNone, PyNone,
                                   PyCallable 2, PyCallable 3, PyStr (str ''utf-8'')]))"
    by code_simp
  then have h: "search_function example_env initial_state (Str (str ''utf-8''))
           = (Inr (Some (CodecInfo [PyCallable 0, PyCallable 1, PyNone, PyNone,
                                    PyCallable 2, PyCallable 3, PyStr (str ''utf-8'')])),
              ?s')"
    by (simp add: prod_eq_iff)
  have d: "Str (str ''utf_8'') \<noteq> Str (str ''utf-8'')"
    by (simp add: str_def)
  have n: "cache initial_state (Str (str ''utf_8'')) = None"
    by (simp add: initial_state_def)
  have z: "normalize_encoding (unicode_isalnum example_env) (Str (str ''utf_8''))
           = Inr (str ''utf_8'')"
    by code_simp
  have l: "import_log ?s'
           @ map (\<lambda>m. str ''encodings.'' @ m)
               (tried example_env (filter (\<lambda>m. m \<noteq> [] \<and> dot \<notin> set m)
                                     (modnames (aliases ?s') (str ''utf_8''))))
           = [str ''encodings.utf_8'', str ''encodings.utf_8'']"
    by code_simp
  note r = search_function_caches_requested_name
             [OF h, of "Str (str ''utf_8'')" "str ''utf_8''"]
  from r have r2: "search_function example_env ?s' (Str (str ''utf-8''))
     = (Inr (Some (CodecInfo [PyCallable 0, PyCallable 1, PyNone, PyNone,
                              PyCallable 2, PyCallable 3, PyStr (str ''utf-8'')])), ?s')"
    by blast
  from r d n have r3: "cache ?s' (Str (str ''utf_8'')) = None"
    by simp
  from r d n z have "import_log (snd (search_function example_env ?s' (Str (str ''utf_8''))))
           = import_log ?s'
           @ map (\<lambda>m. str ''encodings.'' @ m)
               (tried example_env (filter (\<lambda>m. m \<noteq> [] \<and> dot \<notin> set m)
                                     (modnames (aliases ?s') (str ''utf_8''))))"
    by blast
  with l have r4: "import_log (snd (search_function example_env ?s' (Str (str ''utf_8''))))
                   = [str ''encodings.utf_8'', str ''encodings.utf_8'']"
    by (simp only:)
  from f r2 d n z r3 r4 show ?thesis by (intro conjI)
qed

text \<open>
  The two names \<open>"utf-8"\<close> and \<open>"utf_8"\<close> have the same normalised name, and resolving one
  after the other imports the module twice.
\<close>

theorem search_function_cache_key_counterexample:
  "normalize_encoding latin1_isalnum (Str (str ''utf-8''))
   = normalize_encoding latin1_isalnum (Str (str ''utf_8''))
   \<and> import_log (snd (search_function example_env
        (snd (search_function example_env initial_state (Str (str ''utf-8''))))
        (Str (str ''utf_8''))))
     = [str ''encodings.utf_8'', str ''encodings.utf_8'']"
  by code_simp

text \<open>
  C2 (as amended). When an alias exists for the normalised name, the candidate list is the
  alias target first and the normalised name second, duplicates kept. The loop skips every
  candidate that is empty or contains a dot and imports the others in this order, up to
  the first import that succeeds.
\<close>

theorem search_function_candidates:
  assumes "cache s encoding = None"
    and "normalize_encoding (unicode_isalnum E) encoding = Inr norm"
    and "aliased_encoding (aliases s) norm = Some a"
  shows "modnames (aliases s) norm = [a, norm]
         \<and> import_log (snd (search_function E s encoding))
           = import_log s
             @ map (\<lambda>m. str ''encodings.'' @ m)
                 (tried E (filter (\<lambda>m. m \<noteq> [] \<and> dot \<notin> set m) [a, norm]))"
proof -
  from assms(3) have m: "modnames (aliases s) norm = [a, norm]"
    by (simp add: modnames_def)
  have f: "filter (\<lambda>m. \<not> skipped m) ms = filter (\<lambda>m. m \<noteq> [] \<and> dot \<notin> set m) ms" for ms
    by (simp add: skipped_def)
  have "import_log (snd (search_function E s encoding))
        = import_log s @ snd (import_loop E (modnames (aliases s) norm))"
    by (rule search_function_miss_log [OF assms(1,2)])
  also have "\<dots> = import_log s
             @ map (\<lambda>m. str ''encodings.'' @ m)
                 (tried E (filter (\<lambda>m. m \<noteq> [] \<and> dot \<notin> set m) [a, norm]))"
    by (simp only: m import_loop_log f)
  finally show ?thesis using m by (intro conjI)
qed

text \<open>
  Three instances: both candidates are tried (\<open>latin1\<close>); the normalised name \<open>a.b\<close>
  contains a dot and is skipped after its alias target failed; the normalised name of
  \<open>-;\<close> is empty and is skipped after its alias target failed.
\<close>

theorem search_function_candidates_witness:
  "cache initial_state (Str (str ''latin1'')) = None
   \<and> normalize_encoding (unicode_isalnum example_env) (Str (str ''latin1'')) = Inr (str ''latin1'')
   \<and> aliased_encoding (aliases initial_state) (str ''latin1'') = Some (str ''latin_1'')
   \<and> modnames (aliases initial_state) (str ''latin1'') = [str ''latin_1'', str ''latin1'']
   \<and> import_log (snd (search_function example_env initial_state (Str (str ''latin1''))))
     = [str ''encodings.latin_1'', str ''encodings.latin1'']
   \<and> cache skipping_state (Str (str ''a.b'')) = None
   \<and> normalize_encoding (unicode_isalnum example_env) (Str (str ''a.b'')) = Inr (str ''a.b'')
   \<and> aliased_encoding (aliases skipping_state) (str ''a.b'') = Some (str ''missing'')
   \<and> modnames (aliases skipping_state) (str ''a.b'') = [str ''missing'', str ''a.b'']
   \<and> import_log (snd (search_function example_env skipping_state (Str (str ''a.b''))))
     = [str ''encodings.missing'']
   \<and> cache skipping_state (Str (str ''-;'')) = None
   \<and> normalize_encoding (unicode_isalnum example_env) (Str (str ''-;'')) = Inr []
   \<and> aliased_encoding (aliases skipping_state) [] = Some (str ''absent'')
   \<and> modnames (aliases skipping_state) [] = [str ''absent'', []]
   \<and> import_log (snd (search_function example_env skipping_state (Str (str ''-;''))))
     = [str ''encodings.absent'']"
proof -
  have h1: "cache initial_state (Str (str ''latin1'')) = None"
    by (simp add: initial_state_def)
  have h2: "normalize_encoding (unicode_isalnum example_env) (Str (str ''latin1''))
            = Inr (str ''latin1'')"
    by code_simp
  have h3: "aliased_encoding (aliases initial_state) (str ''latin1'') = Some (str ''latin_1'')"
    by code_simp
  have t: "import_log initial_state
           @ map (\<lambda>m. str ''encodings.'' @ m)
               (tried example_env
                  (filter (\<lambda>m. m \<noteq> [] \<and> dot \<notin> set m) [str ''latin_1'', str ''latin1'']))
           = [str ''encodings.latin_1'', str ''encodings.latin1'']"
    by code_simp
  note r = search_function_candidates [OF h1 h2 h3]
  from r have r1: "modnames (aliases initial_state) (str ''latin1'')
                   = [str ''latin_1'', str ''latin1'']"
    by blast
  from r t have r2: "import_log (snd (search_function example_env initial_state
                                       (Str (str ''latin1''))))
                     = [str ''encodings.latin_1'', str ''encodings.latin1'']"
    by (simp only:)
  have k1: "cache skipping_state (Str (str ''a.b'')) = None"
    by (simp add: skipping_state_def)
  have k2: "normalize_encoding (unicode_isalnum example_env) (Str (str ''a.b''))
            = Inr (str ''a.b'')"
    by code_simp
  have k3: "aliased_encoding (aliases skipping_state) (str ''a.b'') = Some (str ''missing'')"
    by code_simp
  have kt: "import_log skipping_state
            @ map (\<lambda>m. str ''encodings.'' @ m)
                (tried example_env
                   (filter (\<lambda>m. m \<noteq> [] \<and> dot \<notin> set m) [str ''missing'', str ''a.b'']))
            = [str ''encodings.missing'']"
    by code_simp
  note q = search_function_candidates [OF k1 k2 k3]
  from q have q1: "modnames (aliases skipping_state) (str ''a.b'')
                   = [str ''missing'', str ''a.b'']"
    by blast
  from q kt have q2: "import_log (snd (search_function example_env skipping_state
                                        (Str (str ''a.b''))))
                      = [str ''encodings.missing'']"
    by (simp only:)
  have e1: "cache skipping_state (Str (str ''-;'')) = None"
    by (simp add: skipping_state_def)
  have e2: "normalize_encoding (unicode_isalnum example_env) (Str (str ''-;'')) = Inr []"
    by code_simp
  have e3: "aliased_encoding (aliases skipping_state) [] = Some (str ''absent'')"
    by code_simp
  have et: "import_log skipping_state
            @ map (\<lambda>m. str ''encodings.'' @ m)
                (tried example_env
                   (filter (\<lambda>m. m \<noteq> [] \<and> dot \<notin> set m) [str ''absent'', []]))
            = [str ''encodings.absent'']"
    by code_simp
  note p = search_function_candidates [OF e1 e2 e3]
  from p have p1: "modnames (aliases skipping_state) [] = [str ''absent'', []]"
    by blast
  from p et have p2: "import_log (snd (search_function example_env skipping_state
                                        (Str (str ''-;''))))
                      = [str ''encodings.absent'']"
    by (simp only:)
  from h1 h2 h3 r1 r2 k1 k2 k3 q1 q2 e1 e2 e3 p1 p2 show ?thesis
    by (intro conjI)
qed

text \<open>
  The alias target is tried before the normalised name, and a candidate that occurs twice
  is tried twice.
\<close>

theorem search_function_candidates_counterexample:
  "import_log (snd (search_function example_env initial_state (Str (str ''latin1''))))
   = [str ''encodings.latin_1'', str ''encodings.latin1'']
   \<and> import_log (snd (search_function example_env
        (initial_state\<lparr>aliases := [str ''x'' \<mapsto> str ''x'']\<rparr>) (Str (str ''x''))))
     = [str ''encodings.x'', str ''encodings.x'']"
  by code_simp

text \<open>
  C3 (as amended). If the module that was imported has no \<open>getregentry\<close>, the search
  function raises nothing: it returns \<open>None\<close> and caches \<open>None\<close> under the requested name,
  as it does when no module is found. A later resolution of the same name returns the
  cached \<open>None\<close> and imports nothing.
\<close>

theorem search_function_no_getregentry:
  assumes "cache s encoding = None"
    and "normalize_encoding (unicode_isalnum E) encoding = Inr norm"
    and "import_loop E (modnames (aliases s) norm) = (Some (modname, m), log)"
    and "getregentry m = None"
  shows "search_function E s encoding
         = (Inr None, s\<lparr>import_log := import_log s @ log,
                          cache := (cache s)(encoding \<mapsto> None)\<rparr>)
         \<and> search_function E
             (s\<lparr>import_log := import_log s @ log, cache := (cache s)(encoding \<mapsto> None)\<rparr>)
             encoding
           = (Inr None, s\<lparr>import_log := import_log s @ log,
                            cache := (cache s)(encoding \<mapsto> None)\<rparr>)"
proof -
  have "search_function E s encoding
         = (Inr None, s\<lparr>import_log := import_log s @ log,
                          cache := (cache s)(encoding \<mapsto> None)\<rparr>)"
    using assms by (simp add: search_function_def)
  moreover have "search_function E
             (s\<lparr>import_log := import_log s @ log, cache := (cache s)(encoding \<mapsto> None)\<rparr>)
             encoding
           = (Inr None, s\<lparr>import_log := import_log s @ log,
                            cache := (cache s)(encoding \<mapsto> None)\<rparr>)"
    by (rule search_function_hit) simp
  ultimately show ?thesis by simp
qed

theorem search_function_no_getregentry_witness:
  "cache initial_state (Str (str ''noentry'')) = None
   \<and> getregentry noentry_module = None
   \<and> fst (search_function example_env initial_state (Str (str ''noentry''))) = Inr None
   \<and> fst (search_function example_env
        (initial_state\<lparr>import_log := import_log initial_state @ [str ''encodings.noentry''],
                        cache := (cache initial_state)(Str (str ''noentry'') \<mapsto> None)\<rparr>)
        (Str (str ''noentry''))) = Inr None"
proof -
  have h1: "cache initial_state (Str (str ''noentry'')) = None"
    by (simp add: initial_state_def)
  have h2: "normalize_encoding (unicode_isalnum example_env) (Str (str ''noentry''))
            = Inr (str ''noentry'')"
    by code_simp
  have h3: "import_loop example_env (modnames (aliases initial_state) (str ''noentry''))
            = (Some (str ''noentry'', noentry_module), [str ''encodings.noentry''])"
    by code_simp
  have h4: "getregentry noentry_module = None"
    by (simp add: noentry_module_def)
  from search_function_no_getregentry [OF h1 h2 h3 h4] h1 h4 show ?thesis
    by simp
qed

theorem search_function_no_getregentry_counterexample:
  "fst (search_function example_env initial_state (Str (str ''noentry''))) = Inr None
   \<and> cache (snd (search_function example_env initial_state (Str (str ''noentry''))))
       (Str (str ''noentry'')) = Some None
   \<and> import_log (snd (search_function example_env
        (snd (search_function example_env initial_state (Str (str ''noentry''))))
        (Str (str ''noentry''))))
     = [str ''encodings.noentry'']"
  by code_simp

text \<open>
  C7 (as amended). A value of \<open>getregentry()\<close> that is not a \<open>CodecInfo\<close> must have between
  4 and 7 members: the search function raises \<open>CodecRegistryError\<close> with the message
  \<open>module "..." (...) failed to register\<close>, which names the module, exactly when the count is
  below 4 or above 7.
\<close>

theorem search_function_member_count:
  assumes "cache s encoding = None"
    and "normalize_encoding (unicode_isalnum E) encoding = Inr norm"
    and "import_loop E (modnames (aliases s) norm) = (Some (modname, m), log)"
    and "getregentry m = Some (PlainTuple t)"
  shows "(fst (search_function E s encoding) = Inl (CodecRegistryError (failed_to_register m)))
         = (length t < 4 \<or> 7 < length t)"
proof -
  have "fst (search_function E s encoding)
        = (case validate_entry E m (PlainTuple t) of Inl e \<Rightarrow> Inl e | Inr entry \<Rightarrow> Inr (Some entry))"
    using assms by (simp add: search_function_def Let_def split: sum.splits option.splits)
  moreover have "(validate_entry E m (PlainTuple t) = Inl (CodecRegistryError (failed_to_register m)))
                 = (length t < 4 \<or> 7 < length t)"
    using validate_entry_count [of E m t] by auto
  ultimately show ?thesis by (auto split: sum.splits)
qed

theorem search_function_member_count_witness:
  "cache initial_state (Str (str ''shortentry'')) = None
   \<and> getregentry shortentry_module = Some (PlainTuple [PyCallable 50, PyCallable 51, PyNone])
   \<and> fst (search_function example_env initial_state (Str (str ''shortentry'')))
     = Inl (CodecRegistryError (failed_to_register shortentry_module))"
proof -
  have h1: "cache initial_state (Str (str ''shortentry'')) = None"
    by (simp add: initial_state_def)
  have h2: "normalize_encoding (unicode_isalnum example_env) (Str (str ''shortentry''))
            = Inr (str ''shortentry'')"
    by code_simp
  have h3: "import_loop example_env (modnames (aliases initial_state) (str ''shortentry''))
            = (Some (str ''shortentry'', shortentry_module), [str ''encodings.shortentry''])"
    by code_simp
  have h4: "getregentry shortentry_module
            = Some (PlainTuple [PyCallable 50, PyCallable 51, PyNone])"
    by (simp add: shortentry_module_def)
  from search_function_member_count [OF h1 h2 h3 h4] h1 h4 show ?thesis
    by simp
qed

text \<open>A tuple of four members is accepted and padded to a \<open>CodecInfo\<close> of seven.\<close>

theorem search_function_member_count_counterexample:
  "getregentry oldstyle_module = Some (PlainTuple [PyCallable 10, PyCallable 11, PyNone, PyNone])
   \<and> fst (search_function example_env initial_state (Str (str ''oldstyle'')))
     = Inr (Some (CodecInfo [PyCallable 10, PyCallable 11, PyNone, PyNone, PyNone, PyNone,
                             PyStr (str ''oldstyle'')]))"
  by code_simp

text \<open>
  C9 (as amended). If \<open>getregentry()\<close> returns a value that is not a \<open>CodecInfo\<close> and whose
  first member is not callable, the search function raises \<open>CodecRegistryError\<close> (with the
  message \<open>incompatible codecs in module ...\<close> when the value has 4 to 7 members, and
  \<open>module ... failed to register\<close> otherwise) and caches nothing: the state changes by the
  imports only. A second resolution of the same name runs the same imports again, ending
  with the import of the module, and raises the same error.
\<close>

theorem search_function_not_callable:
  assumes "cache s encoding = None"
    and "normalize_encoding (unicode_isalnum E) encoding = Inr norm"
    and "import_loop E (modnames (aliases s) norm) = (Some (modname, m), log)"
    and "getregentry m = Some (PlainTuple t)"
    and "t \<noteq> []"
    and "\<not> callable (hd t)"
  shows "search_function E s encoding
         = (Inl (CodecRegistryError
                   (if 4 \<le> length t \<and> length t \<le> 7 then incompatible_codecs m
                    else failed_to_register m)),
            s\<lparr>import_log := import_log s @ log\<rparr>)
         \<and> search_function E (s\<lparr>import_log := import_log s @ log\<rparr>) encoding
           = (Inl (CodecRegistryError
                     (if 4 \<le> length t \<and> length t \<le> 7 then incompatible_codecs m
                      else failed_to_register m)),
              s\<lparr>import_log := import_log s @ log @ log\<rparr>)
         \<and> log \<noteq> [] \<and> last log = str ''encodings.'' @ modname"
proof -
  let ?e = "CodecRegistryError
              (if 4 \<le> length t \<and> length t \<le> 7 then incompatible_codecs m
               else failed_to_register m)"
  let ?s1 = "s\<lparr>import_log := import_log s @ log\<rparr>"
  have v: "validate_entry E m (PlainTuple t) = Inl ?e"
    using assms(5,6) by (rule validate_entry_not_callable)
  have first: "search_function E s encoding = (Inl ?e, ?s1)"
    using assms(1-4) v by (rule search_function_raises)
  have c: "cache ?s1 encoding = None" using assms(1) by simp
  have i: "import_loop E (modnames (aliases ?s1) norm) = (Some (modname, m), log)"
    using assms(3) by simp
  have "search_function E ?s1 encoding = (Inl ?e, ?s1\<lparr>import_log := import_log ?s1 @ log\<rparr>)"
    using c assms(2) i assms(4) v by (rule search_function_raises)
  then have second: "search_function E ?s1 encoding
                     = (Inl ?e, s\<lparr>import_log := import_log s @ log @ log\<rparr>)"
    by simp
  from first second import_loop_found [OF assms(3)] show ?thesis by simp
qed

theorem search_function_not_callable_witness:
  "cache initial_state (Str (str ''badshape'')) = None
   \<and> getregentry badshape_module
     = Some (PlainTuple [PyOther 0, PyCallable 21, PyNone, PyNone, PyNone, PyNone])
   \<and> \<not> callable (hd [PyOther 0, PyCallable 21, PyNone, PyNone, PyNone, PyNone])
   \<and> fst (search_function example_env initial_state (Str (str ''badshape'')))
     = Inl (CodecRegistryError (incompatible_codecs badshape_module))
   \<and> snd (search_function example_env
        (initial_state\<lparr>import_log := import_log initial_state @ [str ''encodings.badshape'']\<rparr>)
        (Str (str ''badshape'')))
     = initial_state\<lparr>import_log := import_log initial_state
                        @ [str ''encodings.badshape''] @ [str ''encodings.badshape'']\<rparr>"
proof -
  have h1: "cache initial_state (Str (str ''badshape'')) = None"
    by (simp add: initial_state_def)
  have h2: "normalize_encoding (unicode_isalnum example_env) (Str (str ''badshape''))
            = Inr (str ''badshape'')"
    by code_simp
  have h3: "import_loop example_env (modnames (aliases initial_state) (str ''badshape''))
            = (Some (str ''badshape'', badshape_module), [str ''encodings.badshape''])"
    by code_simp
  have h4: "getregentry badshape_module
            = Some (PlainTuple [PyOther 0, PyCallable 21, PyNone, PyNone, PyNone, PyNone])"
    by (simp add: badshape_module_def)
  have h5: "[PyOther 0, PyCallable 21, PyNone, PyNone, PyNone, PyNone] \<noteq> []"
    by simp
  have h6: "\<not> callable (hd [PyOther 0, PyCallable 21, PyNone, PyNone, PyNone, PyNone])"
    by (simp add: callable_def)
  note r = search_function_not_callable [OF h1 h2 h3 h4 h5 h6]
  from r [THEN conjunct1]
  have r1: "fst (search_function example_env initial_state (Str (str ''badshape'')))
            = Inl (CodecRegistryError (incompatible_codecs badshape_module))"
    by simp
  from r [THEN conjunct2, THEN conjunct1]
  have r2: "snd (search_function example_env
        (initial_state\<lparr>import_log := import_log initial_state @ [str ''encodings.badshape'']\<rparr>)
        (Str (str ''badshape'')))
     = initial_state\<lparr>import_log := import_log initial_state
                        @ [str ''encodings.badshape''] @ [str ''encodings.badshape'']\<rparr>"
    by simp
  from r1 r2 h1 h4 h6 show ?thesis by (intro conjI)
qed

text \<open>
  A \<open>CodecInfo\<close> is not validated: one whose first member is \<open>None\<close> is returned and
  cached.
\<close>

theorem search_function_not_callable_counterexample:
  "getregentry badinfo_module = Some (CodecInfo [PyNone, PyCallable 31, PyNone, PyNone])
   \<and> \<not> callable PyNone
   \<and> fst (search_function example_env initial_state (Str (str ''badinfo'')))
     = Inr (Some (CodecInfo [PyNone, PyCallable 31, PyNone, PyNone]))
   \<and> cache (snd (search_function example_env initial_state (Str (str ''badinfo''))))
       (Str (str ''badinfo''))
     = Some (Some (CodecInfo [PyNone, PyCallable 31, PyNone, PyNone]))"
  by code_simp

section \<open>Properties of \<open>_alias_mbcs\<close>\<close>

lemma mbcs_is_no_code_page: "str ''mbcs'' \<noteq> str ''cp'' @ x"
  by (simp add: str_def)

text \<open>
  C4 (as amended). The fallback resolver returns the entry of the \<open>mbcs\<close> codec exactly
  when the requested name is \<open>cp\<close> followed by the decimal number of the active code page
  (and both imports succeed); for every other requested name, the name \<open>mbcs\<close> included,
  it returns no result.
\<close>

theorem alias_mbcs_code_page:
  "(alias_mbcs W encoding = Some e)
   = (\<exists>acp. GetACP W = Some acp \<and> encoding = Str (str ''cp'' @ str_of_int acp)
            \<and> mbcs_getregentry W = Some e)
   \<and> alias_mbcs W (Str (str ''mbcs'')) = None"
proof -
  have "(alias_mbcs W encoding = Some e)
        = (\<exists>acp. GetACP W = Some acp \<and> encoding = Str (str ''cp'' @ str_of_int acp)
                 \<and> mbcs_getregentry W = Some e)"
    by (cases "GetACP W") (auto simp: alias_mbcs_def Let_def)
  moreover have "alias_mbcs W (Str (str ''mbcs'')) = None"
    by (cases "GetACP W") (simp_all add: alias_mbcs_def Let_def mbcs_is_no_code_page)
  ultimately show ?thesis by simp
qed

theorem alias_mbcs_code_page_witness:
  "alias_mbcs example_winenv (Str (str ''cp1252'')) = mbcs_getregentry example_winenv
   \<and> alias_mbcs example_winenv (Str (str ''mbcs'')) = None"
proof -
  have a: "GetACP example_winenv = Some 1252"
    by (simp add: example_winenv_def)
  have b: "Str (str ''cp1252'') = Str (str ''cp'' @ str_of_int 1252)"
    by code_simp
  have c: "mbcs_getregentry example_winenv
           = Some (CodecInfo [PyCallable 40, PyCallable 41, PyNone, PyNone,
                              PyCallable 42, PyCallable 43, PyStr (str ''mbcs'')])"
    by (simp add: example_winenv_def)
  from alias_mbcs_code_page [of example_winenv "Str (str ''cp1252'')"
      "CodecInfo [PyCallable 40, PyCallable 41, PyNone, PyNone,
                  PyCallable 42, PyCallable 43, PyStr (str ''mbcs'')]"] a b c
  show ?thesis by auto
qed

theorem alias_mbcs_code_page_counterexample:
  "alias_mbcs example_winenv (Str (str ''cp1252''))
   = Some (CodecInfo [PyCallable 40, PyCallable 41, PyNone, PyNone,
                      PyCallable 42, PyCallable 43, PyStr (str ''mbcs'')])
   \<and> Str (str ''cp1252'') \<noteq> Str (str ''mbcs'')
   \<and> alias_mbcs example_winenv (Str (str ''mbcs'')) = None"
  by code_simp

end
